theory Spec2Isabelle
  imports Complex_Main "HOL-Library.Sublist"
begin

section \<open>JavaScript values\<close>

text \<open>
  The modular Firestore functions of \<^verbatim>\<open>packages/firestore/lib/modular/index.js\<close> receive
  untyped JavaScript values. Only two things about a value matter to them: whether it is
  truthy (\<^verbatim>\<open>if (!value)\<close>) and whether it is an array (\<^verbatim>\<open>Array.isArray\<close>). A number is
  an IEEE double; of a double only its being NaN, a zero or something else decides
  truthiness, so the finite values are kept as rationals and \<open>Finite 0\<close> is \<open>+0\<close>.
  Objects and functions are opaque and carry an identity.
\<close>

datatype jsnumber = NaN | NegZero | PosInfinity | NegInfinity | Finite rat

datatype jsval =
    Undefined
  | Null
  | Boolean bool
  | Number jsnumber
  | BigInt int
  | String string
  | Object nat
  | Function nat
  | Array "jsval list"

text \<open>ToBoolean: the falsy values are undefined, null, false, NaN, +0, -0, 0n and ''.\<close>

fun truthy :: "jsval \<Rightarrow> bool" where
  "truthy Undefined = False"
| "truthy Null = False"
| "truthy (Boolean b) = b"
| "truthy (Number n) = (n \<noteq> NaN \<and> n \<noteq> NegZero \<and> n \<noteq> Finite 0)"
| "truthy (BigInt i) = (i \<noteq> 0)"
| "truthy (String s) = (s \<noteq> [])"
| "truthy (Object _) = True"
| "truthy (Function _) = True"
| "truthy (Array _) = True"

fun isArray :: "jsval \<Rightarrow> bool" where
  "isArray (Array _) = True"
| "isArray _ = False"

fun isFunction :: "jsval \<Rightarrow> bool" where
  "isFunction (Function _) = True"
| "isFunction _ = False"

section \<open>The wrapped compatibility objects\<close>

text \<open>
  \<open>doc\<close> and \<open>collection\<close> end in \<^verbatim>\<open>return parent.doc(path)\<close> and
  \<^verbatim>\<open>return parent.collection(path)\<close>; \<open>updateDoc\<close> ends in a call of
  \<^verbatim>\<open>reference.update\<close>. The wrapped object is a record of its methods; what a method
  returns (or that it throws) is the wrapped SDK's business, so the result type is a
  parameter. \<open>doc\<close> may be called without a path (\<^verbatim>\<open>@param {string?} path\<close>): \<open>None\<close>
  is the argument left out, that is \<^verbatim>\<open>undefined\<close>. \<open>update\<close> receives its argument
  list.
\<close>

record 'r firestore_parent =
  parent_doc :: "string option \<Rightarrow> 'r"
  parent_collection :: "string \<Rightarrow> 'r"

record 'r document_reference =
  reference_update :: "jsval list \<Rightarrow> 'r"

text \<open>
  To observe which call reaches the wrapped object, a spy (as \<^verbatim>\<open>sinon.spy()\<close> in the
  end-to-end tests): each method returns normally and reports the call it received. The
  failure kinds are those of the specification's error taxonomy.
\<close>

datatype wrapped_call =
    ParentDoc "string option"
  | ParentCollection string
  | ReferenceUpdate "jsval list"

datatype failure = InvalidArgument | DelegatedFailure

definition spy_parent :: "(failure + wrapped_call) firestore_parent" where
  "spy_parent =
     \<lparr>parent_doc = (\<lambda>p. Inr (ParentDoc p)), parent_collection = (\<lambda>p. Inr (ParentCollection p))\<rparr>"

definition spy_reference :: "(failure + wrapped_call) document_reference" where
  "spy_reference = \<lparr>reference_update = (\<lambda>args. Inr (ReferenceUpdate args))\<rparr>"

section \<open>Path composition: \<open>doc\<close> and \<open>collection\<close>\<close>

text \<open>
  \<^verbatim>\<open>e.replace(/^\/|\/$/g, '')\<close>: a global replacement scans from the left. The first
  alternative can only match at index 0 (no \<^verbatim>\<open>m\<close> flag), the second only at the last
  index, and a match consumes its slash: in \<^verbatim>\<open>'/'\<close> the one slash is taken by the first
  alternative and nothing is left for the second.
\<close>

definition replace_leading :: "string \<Rightarrow> string" where
  "replace_leading e = (case e of [] \<Rightarrow> [] | c # r \<Rightarrow> if c = CHR ''/'' then r else e)"

definition replace_trailing :: "string \<Rightarrow> string" where
  "replace_trailing e = (if e \<noteq> [] \<and> last e = CHR ''/'' then butlast e else e)"

definition replace_slashes :: "string \<Rightarrow> string" where
  "replace_slashes e = replace_trailing (replace_leading e)"

text \<open>\<^verbatim>\<open>Array.prototype.join(separator)\<close> on an array of strings.\<close>

fun join :: "string list \<Rightarrow> string \<Rightarrow> string" where
  "join [] sep = []"
| "join [x] sep = x"
| "join (x # y # ys) sep = x @ sep @ join (y # ys) sep"

text \<open>\<^verbatim>\<open>path + '/'\<close>: the operator \<^verbatim>\<open>+\<close> turns an omitted path into \<^verbatim>\<open>'undefined'\<close>.\<close>

definition plus_string :: "string option \<Rightarrow> string \<Rightarrow> string" where
  "plus_string path s = (case path of None \<Rightarrow> ''undefined'' @ s | Some p \<Rightarrow> p @ s)"

text \<open>
  \<^verbatim>\<open>
  export function doc(parent, path, ...pathSegments) {
    if (pathSegments && pathSegments.length) {
      path = path + '/' + pathSegments.map(e => e.replace(/^\/|\/$/g, '')).join('/');
    }
    return parent.doc(path);
  }
  \<close>
  The rest parameter is an array of the documented strings; as a value it is truthy.
\<close>

definition doc :: "'r firestore_parent \<Rightarrow> string option \<Rightarrow> string list \<Rightarrow> 'r" where
  "doc parent path pathSegments =
     parent_doc parent
       (if truthy (Array (map String pathSegments)) \<and> length pathSegments \<noteq> 0
        then Some (plus_string path ''/'' @ join (map replace_slashes pathSegments) ''/'')
        else path)"

text \<open>\<open>collection\<close> has the same body; its path is documented as a string.\<close>

definition collection :: "'r firestore_parent \<Rightarrow> string \<Rightarrow> string list \<Rightarrow> 'r" where
  "collection parent path pathSegments =
     parent_collection parent
       (if truthy (Array (map String pathSegments)) \<and> length pathSegments \<noteq> 0
        then path @ ''/'' @ join (map replace_slashes pathSegments) ''/''
        else path)"

section \<open>\<open>updateDoc\<close>\<close>

text \<open>
  \<^verbatim>\<open>
  export function updateDoc(reference, fieldOrUpdateData, value, ...moreFieldsAndValues) {
    if (!value) {
      return reference.update(fieldOrUpdateData);
    }
    if (!moreFieldsAndValues || !Array.isArray(moreFieldsAndValues)) {
      return reference.update(fieldOrUpdateData, value);
    }
    return reference.update(fieldOrUpdateData, value, ...moreFieldsAndValues);
  }
  \<close>
  \<open>rest_guard\<close> is the condition of the second \<^verbatim>\<open>if\<close>, on the array that the rest
  parameter is bound to.
\<close>

definition rest_guard :: "jsval list \<Rightarrow> bool" where
  "rest_guard moreFieldsAndValues =
     (\<not> truthy (Array moreFieldsAndValues) \<or> \<not> isArray (Array moreFieldsAndValues))"

definition updateDoc ::
  "'r document_reference \<Rightarrow> jsval \<Rightarrow> jsval \<Rightarrow> jsval list \<Rightarrow> 'r" where
  "updateDoc reference fieldOrUpdateData val moreFieldsAndValues =
     (if \<not> truthy val then reference_update reference [fieldOrUpdateData]
      else if rest_guard moreFieldsAndValues
        then reference_update reference [fieldOrUpdateData, val]
      else reference_update reference ([fieldOrUpdateData, val] @ moreFieldsAndValues))"

text \<open>
  A call site passes a list of arguments after the reference; a parameter without an
  argument is \<^verbatim>\<open>undefined\<close> and the rest parameter takes what is left.
\<close>

definition updateDoc_call :: "'r document_reference \<Rightarrow> jsval list \<Rightarrow> 'r" where
  "updateDoc_call reference args =
     updateDoc reference
       (case args of [] \<Rightarrow> Undefined | a # _ \<Rightarrow> a)
       (case drop 1 args of [] \<Rightarrow> Undefined | v # _ \<Rightarrow> v)
       (drop 2 args)"

section \<open>Query constraints (\<^verbatim>\<open>query.d.ts\<close>)\<close>



text \<open>
  \<^verbatim>\<open>interface AppliableConstraint { _apply<T>(query: Query<T>): Query<T>; }\<close> and
  \<^verbatim>\<open>interface IQueryConstraint extends AppliableConstraint { readonly type: ...; }\<close>.
  A \<open>Query\<close> is an opaque handle of the wrapped SDK: the type parameter \<open>'q\<close>.
\<close>

record 'q AppliableConstraint =
  apply_constraint :: "'q \<Rightarrow> 'q"












text \<open>
  Modelled from the spec: the body of \<open>query\<close> (in \<^verbatim>\<open>query.js\<close>; the sources hold only
  its declaration \<^verbatim>\<open>query<T>(query, queryConstraint, ...additionalQueryConstraints)\<close>).
  The specification: ``\<open>query(baseQuery, ...constraints)\<close> folds the constraint list onto
  \<open>baseQuery\<close> left-to-right, each step producing a new immutable Query value via the
  constraint's \<open>_apply(query)\<close> method''; a composite filter in the first place is an
  appliable constraint like the others and is therefore applied first. The loop takes
  the constraints one at a time from the front.
\<close>

fun query :: "'q \<Rightarrow> ('q, 'x) AppliableConstraint_scheme list \<Rightarrow> 'q" where
  "query q [] = q"
| "query q (c # cs) = query (apply_constraint c q) cs"

text \<open>
  A query that remembers which constraints were applied to it, in order: the query
  handle used to count the invocations of \<open>_apply\<close>.
\<close>

definition logging :: "'c \<Rightarrow> 'c list AppliableConstraint" where
  "logging c = \<lparr>apply_constraint = (\<lambda>applied. applied @ [c])\<rparr>"



section \<open>Realtime Database: \<open>ref.parent\<close> and \<open>onDisconnect().remove()\<close>\<close>

text \<open>
  Of the database package the sources hold the end-to-end tests
  \<^verbatim>\<open>e2e/reference/parent.e2e.js\<close> and \<^verbatim>\<open>e2e/onDisconnect/remove.e2e.js\<close>; the
  functions under test are not among them.
\<close>

text \<open>
  Modelled from the spec: the parsing of a path string (the path helpers of the database
  package are missing). ``Path: an ordered sequence of string segments'': the string is
  cut at its slashes, as \<^verbatim>\<open>String.prototype.split('/')\<close> does.
\<close>

fun split_slash :: "string \<Rightarrow> string list" where
  "split_slash [] = [[]]"
| "split_slash (c # cs) =
     (if c = CHR ''/'' then [] # split_slash cs
      else (case split_slash cs of [] \<Rightarrow> [[c]] | s # ss \<Rightarrow> (c # s) # ss))"

text \<open>
  Modelled from the spec: the segments of a path argument (missing). No segment is empty
  and none holds a slash (``no segment may begin or end with a slash after trimming'');
  a path that is left out has no segments.
\<close>

definition path_segments :: "string option \<Rightarrow> string list" where
  "path_segments path =
     (case path of None \<Rightarrow> [] | Some p \<Rightarrow> filter (\<lambda>s. s \<noteq> []) (split_slash p))"

text \<open>
  Modelled from the spec: the database reference (the reference class of the database
  package is missing), ``an opaque handle identifying a location'': the database it
  belongs to and the segments of its path. The root has no segments.
\<close>

record 'db reference =
  ref_database :: 'db
  ref_segments :: "string list"

text \<open>
  Modelled from the spec: the namespaced \<^verbatim>\<open>firebase.database().ref(path)\<close> (missing).
\<close>

definition database_ref :: "'db \<Rightarrow> string option \<Rightarrow> 'db reference" where
  "database_ref db path = \<lparr>ref_database = db, ref_segments = path_segments path\<rparr>"

text \<open>
  Modelled from the spec: the modular \<^verbatim>\<open>ref(db, path)\<close> (missing). A modular function is
  a delegation facade: it ``forwards directly to a method on the wrapped compatibility
  object''.
\<close>

definition ref :: "'db \<Rightarrow> string option \<Rightarrow> 'db reference" where
  "ref db path = database_ref db path"

text \<open>
  Modelled from the spec: the getter \<open>key\<close> of a reference (missing): the last segment of
  the path, \<^verbatim>\<open>null\<close> at the root.
\<close>

definition key :: "'db reference \<Rightarrow> string option" where
  "key r = (if ref_segments r = [] then None else Some (last (ref_segments r)))"

text \<open>
  Modelled from the spec: the getter \<open>parent\<close> of a reference (missing). It is ``a
  reference one path segment up'' and \<^verbatim>\<open>null\<close> at the root; the specification's example
  and the test \<^verbatim>\<open>return last token in reference path\<close> add that the parent of
  \<^verbatim>\<open>'/foo'\<close> is \<^verbatim>\<open>null\<close> too, so a path of one segment has no parent either.
\<close>

definition parent :: "'db reference \<Rightarrow> 'db reference option" where
  "parent r =
     (if length (ref_segments r) \<le> 1 then None
      else Some (r\<lparr>ref_segments := butlast (ref_segments r)\<rparr>))"

text \<open>A thrown \<^verbatim>\<open>Error\<close> with its message, as the tests read it (\<^verbatim>\<open>error.message\<close>).\<close>

datatype js_error = Error string

text \<open>
  Modelled from the spec: the call that reaches the native layer (missing), the
  ``disconnect-action registration (\<open>onDisconnect().remove(callback)\<close>)'' for the
  location of a reference.
\<close>

datatype 'db native_call = NativeOnDisconnectRemove "'db reference" jsval

text \<open>
  Modelled from the spec: the message of the argument error (missing),
  \<^verbatim>\<open>'onComplete' must be a function if provided\<close>, quotation marks included.
\<close>

definition onComplete_message :: string where
  "onComplete_message =
     [CHR 0x27] @ ''onComplete'' @ [CHR 0x27] @ '' must be a function if provided''"

text \<open>
  Modelled from the spec: the object that \<^verbatim>\<open>ref.onDisconnect()\<close> returns (missing); it
  acts on the location of its reference.
\<close>

record 'db OnDisconnect =
  disconnect_reference :: "'db reference"

text \<open>Modelled from the spec: the namespaced \<^verbatim>\<open>ref.onDisconnect()\<close> (missing).\<close>

definition reference_onDisconnect :: "'db reference \<Rightarrow> 'db OnDisconnect" where
  "reference_onDisconnect r = \<lparr>disconnect_reference = r\<rparr>"

text \<open>
  Modelled from the spec: the modular \<^verbatim>\<open>onDisconnect(ref)\<close> (missing), a delegation
  facade over the namespaced method.
\<close>

definition onDisconnect :: "'db reference \<Rightarrow> 'db OnDisconnect" where
  "onDisconnect r = reference_onDisconnect r"

text \<open>
  Modelled from the spec: \<open>remove\<close> of that object (missing).
  ``\<open>onDisconnect().remove(onComplete)\<close> must raise an argument error synchronously if
  \<open>onComplete\<close> is provided but is not callable, with message
  \<open>'onComplete' must be a function if provided\<close>''; otherwise it is a pass-through to the
  native registration. An argument is provided when it is not \<^verbatim>\<open>undefined\<close>.
\<close>

definition onDisconnect_remove :: "'db OnDisconnect \<Rightarrow> jsval \<Rightarrow> js_error + 'db native_call" where
  "onDisconnect_remove d onComplete =
     (if onComplete \<noteq> Undefined \<and> \<not> isFunction onComplete
      then Inl (Error onComplete_message)
      else Inr (NativeOnDisconnectRemove (disconnect_reference d) onComplete))"

text \<open>\<^verbatim>\<open>error.message.should.containEql(s)\<close> on strings: \<open>s\<close> occurs in the message.\<close>

definition containEql :: "string \<Rightarrow> string \<Rightarrow> bool" where
  "containEql message s = sublist s message"


section \<open>Auxiliary facts\<close>

lemmas replace_defs = replace_slashes_def replace_leading_def replace_trailing_def

text \<open>
  The replacement removes a slash at the front when there is one, a slash at the end when
  there is one left, and nothing else.
\<close>

lemma replace_slashes_decomp:
  "e = (if e \<noteq> [] \<and> hd e = CHR ''/'' then ''/'' else []) @ replace_slashes e @
       (if 2 \<le> length e \<and> last e = CHR ''/'' then ''/'' else [])"
proof (cases e)
  case Nil
  then show ?thesis by (simp add: replace_defs)
next
  case (Cons c r)
  show ?thesis
  proof (cases "r = []")
    case True
    with Cons show ?thesis
      by (simp add: replace_defs)
  next
    case False
    then obtain m z where r: "r = m @ [z]"
      by (cases r rule: rev_cases) auto
    show ?thesis
      by (simp add: Cons r replace_defs)
  qed
qed

lemma replace_slashes_slash_free: "CHR ''/'' \<notin> set e \<Longrightarrow> replace_slashes e = e"
proof (cases e rule: rev_cases)
  case Nil
  then show ?thesis by (simp add: replace_defs)
next
  case (snoc m z)
  assume "CHR ''/'' \<notin> set e"
  with snoc show ?thesis
    by (cases m) (auto simp: replace_defs)
qed

lemma join_concat: "join (x # xs) sep = x @ concat (map (\<lambda>s. sep @ s) xs)"
  by (induction xs arbitrary: x) auto

lemma join_map_concat:
  "xs \<noteq> [] \<Longrightarrow> sep @ join (map f xs) sep = concat (map (\<lambda>e. sep @ f e) xs)"
  by (cases xs) (simp_all add: join_concat comp_def)

lemma query_snoc: "query q (cs @ [c]) = apply_constraint c (query q cs)"
  by (induction cs arbitrary: q) simp_all

lemma query_foldl: "query q cs = foldl (\<lambda>q c. apply_constraint c q) q cs"
  by (induction cs arbitrary: q) simp_all

lemma query_logging: "query applied (map logging ts) = applied @ ts"
  by (induction ts arbitrary: applied) (simp_all add: logging_def)



lemma key_butlast:
  assumes "2 \<le> length (ref_segments r)"
  shows "key (r\<lparr>ref_segments := butlast (ref_segments r)\<rparr>) =
         Some (ref_segments r ! (length (ref_segments r) - 2))"
proof -
  from assms have ne: "butlast (ref_segments r) \<noteq> []"
    by (cases "ref_segments r" rule: rev_cases) auto
  have "last (butlast (ref_segments r)) =
        butlast (ref_segments r) ! (length (butlast (ref_segments r)) - 1)"
    using ne by (rule last_conv_nth)
  also have "\<dots> = ref_segments r ! (length (ref_segments r) - 2)"
    using assms by (simp add: nth_butlast numeral_2_eq_2)
  finally show ?thesis using ne by (simp add: key_def)
qed

section \<open>Path composition\<close>

text \<open>
  Claim C1, as amended. For every call of \<open>doc\<close> or \<open>collection\<close> with at least one extra
  segment, the path handed to \<open>parent.doc\<close> / \<open>parent.collection\<close> is the base path as it
  was given (not trimmed; an omitted base path of \<open>doc\<close> reads \<open>undefined\<close>), followed,
  for each variadic segment in call order, by one slash and that segment with exactly
  one leading and one trailing slash removed where present. Every segment is its
  replacement with at most that one slash put back on either side, so the slashes inside
  it are kept.
\<close>

theorem doc_collection_compose:
  assumes "pathSegments \<noteq> []"
  shows "doc wrapped path pathSegments =
           parent_doc wrapped
             (Some (plus_string path (concat (map (\<lambda>e. ''/'' @ replace_slashes e) pathSegments))))
       \<and> collection wrapped cpath pathSegments =
           parent_collection wrapped
             (cpath @ concat (map (\<lambda>e. ''/'' @ replace_slashes e) pathSegments))
       \<and> (\<forall>e \<in> set pathSegments.
            e = (if e \<noteq> [] \<and> hd e = CHR ''/'' then ''/'' else []) @ replace_slashes e @
                (if 2 \<le> length e \<and> last e = CHR ''/'' then ''/'' else []))"
proof -
  have j: "''/'' @ join (map replace_slashes pathSegments) ''/'' =
           concat (map (\<lambda>e. ''/'' @ replace_slashes e) pathSegments)"
    using assms by (rule join_map_concat)
  have d: "doc wrapped path pathSegments =
           parent_doc wrapped
             (Some (plus_string path (concat (map (\<lambda>e. ''/'' @ replace_slashes e) pathSegments))))"
    using assms j by (cases path) (simp_all add: doc_def plus_string_def)
  have c: "collection wrapped cpath pathSegments =
           parent_collection wrapped
             (cpath @ concat (map (\<lambda>e. ''/'' @ replace_slashes e) pathSegments))"
    using assms j by (simp add: collection_def)
  from d c replace_slashes_decomp show ?thesis by blast
qed

text \<open>
  The amended statement at \<^verbatim>\<open>doc(parent, '/a/', '/b/', 'c/d', '//e')\<close> and at
  \<^verbatim>\<open>collection(parent, 'users/', '/b/', 'c/d', '//e')\<close>.
\<close>

theorem doc_collection_compose_witness:
  "[''/b/'', ''c/d'', ''//e''] \<noteq> []
   \<and> doc spy_parent (Some ''/a/'') [''/b/'', ''c/d'', ''//e''] = Inr (ParentDoc (Some ''/a//b/c/d//e''))
   \<and> collection spy_parent ''users/'' [''/b/'', ''c/d'', ''//e''] = Inr (ParentCollection ''users//b/c/d//e'')
   \<and> replace_slashes ''//e'' = ''/e''"
  using doc_collection_compose [of "[''/b/'', ''c/d'', ''//e'']" spy_parent "Some ''/a/''" "''users/''"]
  by (simp add: spy_parent_def plus_string_def replace_defs)

text \<open>
  Claim C1 as stated has the base path trimmed like the segments. It is not:
  \<^verbatim>\<open>doc(parent, '/a/', 'b')\<close> calls \<^verbatim>\<open>parent.doc('/a//b')\<close>, where trimming and joining
  all three fragments would give \<^verbatim>\<open>'a/b'\<close>; \<open>collection\<close> likewise.
\<close>

theorem doc_trims_base_path_counterexample:
  "doc spy_parent (Some ''/a/'') [''b''] = Inr (ParentDoc (Some ''/a//b''))
   \<and> join (map replace_slashes [''/a/'', ''b'']) ''/'' = ''a/b''
   \<and> doc spy_parent (Some ''/a/'') [''b''] \<noteq>
       parent_doc spy_parent (Some (join (map replace_slashes [''/a/'', ''b'']) ''/''))
   \<and> collection spy_parent ''/a/'' [''b''] \<noteq>
       parent_collection spy_parent (join (map replace_slashes [''/a/'', ''b'']) ''/'')"
  by (simp add: doc_def collection_def spy_parent_def plus_string_def replace_defs)

text \<open>
  Claim C2, as amended. \<open>doc\<close> and \<open>collection\<close> do not check the composed path and raise
  nothing of their own: for every parent, base path and segments they make the call
  \<open>parent.doc(p)\<close> / \<open>parent.collection(p)\<close> with the composed path \<open>p\<close> and return what
  it returns. The composed path is empty exactly when the base path is the empty string
  and no segment is supplied, and then the wrapped object receives the empty path.
\<close>

theorem doc_collection_delegate_unchecked:
  "(\<exists>p. doc wrapped path segs = parent_doc wrapped p
        \<and> doc spy_parent path segs = Inr (ParentDoc p)
        \<and> (p = Some [] \<longleftrightarrow> path = Some [] \<and> segs = []))
   \<and> (\<exists>p. collection wrapped cpath segs = parent_collection wrapped p
        \<and> collection spy_parent cpath segs = Inr (ParentCollection p)
        \<and> (p = [] \<longleftrightarrow> cpath = [] \<and> segs = []))"
  by (cases path) (auto simp: doc_def collection_def spy_parent_def plus_string_def)

text \<open>
  Claim C2 as stated has an empty path rejected with \<open>InvalidArgument\<close> before the
  wrapped object is called. \<^verbatim>\<open>doc(parent, '')\<close> and \<^verbatim>\<open>collection(parent, '')\<close> reach
  the wrapped object with the empty path and return its result.
\<close>

theorem doc_empty_path_counterexample:
  "doc spy_parent (Some []) [] = Inr (ParentDoc (Some []))
   \<and> doc spy_parent (Some []) [] \<noteq> Inl InvalidArgument
   \<and> collection spy_parent [] [] = Inr (ParentCollection [])
   \<and> collection spy_parent [] [] \<noteq> Inl InvalidArgument"
  by (simp add: doc_def collection_def spy_parent_def)

text \<open>
  Claim C4. When no fragment contains a slash, \<open>doc\<close> called with the fragments spread
  over the base path and the variadic segments hands \<open>parent.doc\<close> the same path as
  \<open>doc\<close> called with the fragments joined by single slashes as its only path argument.
\<close>

theorem doc_split_equals_prejoined:
  assumes "\<forall>s \<in> set (a # segs). CHR ''/'' \<notin> set s"
  shows "doc wrapped (Some a) segs = doc wrapped (Some (join (a # segs) ''/'')) []"
proof (cases segs)
  case Nil
  then show ?thesis by (simp add: doc_def)
next
  case (Cons b bs)
  from assms have "map replace_slashes segs = segs"
    by (simp add: map_idI replace_slashes_slash_free)
  with Cons show ?thesis
    by (simp add: doc_def plus_string_def)
qed

text \<open>\<^verbatim>\<open>doc(parent, 'a', 'b', 'c')\<close> and \<^verbatim>\<open>doc(parent, 'a/b/c')\<close>.\<close>

theorem doc_split_equals_prejoined_witness:
  "CHR ''/'' \<notin> set ''a'' \<and> CHR ''/'' \<notin> set ''b'' \<and> CHR ''/'' \<notin> set ''c''
   \<and> doc spy_parent (Some ''a'') [''b'', ''c''] = doc spy_parent (Some ''a/b/c'') []
   \<and> doc spy_parent (Some ''a/b/c'') [] = Inr (ParentDoc (Some ''a/b/c''))"
  using doc_split_equals_prejoined [of "''a''" "[''b'', ''c'']" spy_parent]
  by (simp add: doc_def spy_parent_def)

text \<open>
  Claim C6. With no additional segment, \<open>doc\<close> and \<open>collection\<close> pass the base path to
  \<open>parent.doc\<close> / \<open>parent.collection\<close> exactly as they received it.
\<close>

theorem doc_collection_no_segments:
  "doc wrapped path [] = parent_doc wrapped path
   \<and> collection wrapped cpath [] = parent_collection wrapped cpath"
  by (simp add: doc_def collection_def)

section \<open>Updating a document\<close>

text \<open>
  Claim C3. For every reference, every falsy value (\<open>0\<close>, \<open>false\<close> and the empty string
  among them) and any trailing arguments, \<open>updateDoc\<close> calls \<open>reference.update\<close> with the
  single argument \<open>fieldOrUpdateData\<close>, which is the call it makes when the value is left
  out.
\<close>

theorem updateDoc_falsy_value:
  assumes "\<not> truthy v"
  shows "updateDoc reference f v rest = reference_update reference [f]
       \<and> updateDoc reference f v rest = updateDoc_call reference [f]
       \<and> \<not> truthy (Number (Finite 0)) \<and> \<not> truthy (Boolean False) \<and> \<not> truthy (String [])"
  using assms by (simp add: updateDoc_def updateDoc_call_def)

text \<open>\<^verbatim>\<open>updateDoc(ref, 'count', 0, 'likes', 1)\<close> and the same call with \<^verbatim>\<open>false\<close>.\<close>

theorem updateDoc_falsy_value_witness:
  "\<not> truthy (Number (Finite 0))
   \<and> updateDoc spy_reference (String ''count'') (Number (Finite 0)) [String ''likes'', Number (Finite 1)]
       = Inr (ReferenceUpdate [String ''count''])
   \<and> updateDoc_call spy_reference [String ''count'', Boolean False, String ''likes'', Number (Finite 1)]
       = updateDoc_call spy_reference [String ''count'']"
  using updateDoc_falsy_value [of "Number (Finite 0)" spy_reference "String ''count''" "[String ''likes'', Number (Finite 1)]"]
    updateDoc_falsy_value [of "Boolean False" spy_reference "String ''count''" "[String ''likes'', Number (Finite 1)]"]
  by (simp add: updateDoc_call_def updateDoc_def spy_reference_def)

text \<open>
  Claim C10. The condition of the second \<^verbatim>\<open>if\<close> of \<open>updateDoc\<close> is false for every rest
  array, so its branch is never taken: for a truthy value the call is
  \<open>reference.update(fieldOrUpdateData, value, ...moreFieldsAndValues)\<close>, with what the
  rest array holds, possibly nothing, spread after the two fixed arguments.
\<close>

theorem updateDoc_rest_guard_unreachable:
  "\<not> rest_guard rest
   \<and> (truthy v \<longrightarrow> updateDoc reference f v rest = reference_update reference (f # v # rest))"
  by (simp add: rest_guard_def updateDoc_def)

text \<open>\<^verbatim>\<open>updateDoc(ref, 'count', 5)\<close> and \<^verbatim>\<open>updateDoc(ref, 'count', 5, 'likes', 0)\<close>.\<close>

theorem updateDoc_rest_guard_unreachable_witness:
  "truthy (Number (Finite 5))
   \<and> \<not> rest_guard []
   \<and> updateDoc spy_reference (String ''count'') (Number (Finite 5)) []
       = Inr (ReferenceUpdate [String ''count'', Number (Finite 5)])
   \<and> updateDoc_call spy_reference [String ''count'', Number (Finite 5), String ''likes'', Number (Finite 0)]
       = Inr (ReferenceUpdate [String ''count'', Number (Finite 5), String ''likes'', Number (Finite 0)])"
  using updateDoc_rest_guard_unreachable [of "[]" "Number (Finite 5)" spy_reference "String ''count''"]
    updateDoc_rest_guard_unreachable [of "[String ''likes'', Number (Finite 0)]" "Number (Finite 5)" spy_reference "String ''count''"]
  by (simp add: updateDoc_call_def spy_reference_def)

section \<open>Query composition\<close>

text \<open>
  Claim C5. \<open>query(baseQuery, c1, ..., cN)\<close> is the left-to-right fold of \<open>_apply\<close> over
  the constraints: the constraint given last is applied last, to the query that the
  constraints before it produced, so that three constraints give
  \<open>c3._apply(c2._apply(c1._apply(baseQuery)))\<close>. On a query handle that records the
  applications made to it, the record after \<open>query\<close> is the constraint list itself: each
  \<open>_apply\<close> is called exactly once, in the order given. Every step yields a new query
  value from the one it is given.
\<close>

theorem query_folds_left:
  "query base cs = foldl (\<lambda>q c. apply_constraint c q) base cs
   \<and> query base (cs @ [c]) = apply_constraint c (query base cs)
   \<and> query base [c1, c2, c3] = apply_constraint c3 (apply_constraint c2 (apply_constraint c1 base))
   \<and> query [] (map logging ts) = ts"
  using query_foldl [of base cs] query_snoc [of base cs c] query_logging [of "[]" ts]
  by simp



section \<open>Realtime Database\<close>

text \<open>
  Claim C8. \<open>onDisconnect(ref).remove(onComplete)\<close> raises an error if and only if
  \<open>onComplete\<close> is provided and is not a function; the message of the error it raises
  contains \<open>'onComplete' must be a function if provided\<close>; when \<open>onComplete\<close> is left out
  or is a function nothing is raised and the call goes to the native layer. The modular
  \<open>onDisconnect(ref)\<close> and the namespaced \<open>ref.onDisconnect()\<close> behave alike.
\<close>

theorem onDisconnect_remove_onComplete:
  "((\<exists>e. onDisconnect_remove d cb = Inl e) \<longleftrightarrow> cb \<noteq> Undefined \<and> \<not> isFunction cb)
   \<and> (\<forall>msg. onDisconnect_remove d cb = Inl (Error msg) \<longrightarrow> containEql msg onComplete_message)
   \<and> (cb = Undefined \<or> isFunction cb \<longrightarrow>
        onDisconnect_remove d cb = Inr (NativeOnDisconnectRemove (disconnect_reference d) cb))
   \<and> onDisconnect_remove (onDisconnect r) cb = onDisconnect_remove (reference_onDisconnect r) cb"
  by (auto simp: onDisconnect_remove_def containEql_def onDisconnect_def)

text \<open>
  The tests \<^verbatim>\<open>throws if onComplete is not a function\<close> (\<^verbatim>\<open>remove('foo')\<close>) and
  \<^verbatim>\<open>calls back to the onComplete function\<close> (\<^verbatim>\<open>remove(callback)\<close>), and \<^verbatim>\<open>remove()\<close>.
\<close>

theorem onDisconnect_remove_onComplete_witness:
  "onDisconnect_remove (onDisconnect (ref (0::nat) (Some ''tests/onDisconnectRemove''))) (String ''foo'')
     = Inl (Error onComplete_message)
   \<and> containEql onComplete_message onComplete_message
   \<and> onDisconnect_remove (onDisconnect (ref (0::nat) (Some ''tests/onDisconnectRemove''))) (Function 0)
     = Inr (NativeOnDisconnectRemove (ref 0 (Some ''tests/onDisconnectRemove'')) (Function 0))
   \<and> onDisconnect_remove (reference_onDisconnect (database_ref (0::nat) (Some ''tests/onDisconnectRemove''))) Undefined
     = Inr (NativeOnDisconnectRemove (database_ref 0 (Some ''tests/onDisconnectRemove'')) Undefined)"
  using onDisconnect_remove_onComplete
    [of "onDisconnect (ref (0::nat) (Some ''tests/onDisconnectRemove''))" "String ''foo''"
        "ref (0::nat) (Some ''tests/onDisconnectRemove'')"]
  by (simp add: onDisconnect_remove_def onDisconnect_def reference_onDisconnect_def containEql_def)

text \<open>
  Claim C9. A reference whose path has at least two segments has a parent, the reference
  of the same database with the last segment removed, and the parent's key is the
  second-to-last segment of the path. The root reference and a reference whose path has
  a single segment have the parent \<^verbatim>\<open>null\<close>. The modular \<open>ref(db, path)\<close> and the
  namespaced \<open>firebase.database().ref(path)\<close> give the same parent.
\<close>

theorem reference_parent_key:
  "(2 \<le> length (ref_segments r) \<longrightarrow>
      (\<exists>p. parent r = Some p \<and> ref_segments p = butlast (ref_segments r)
          \<and> ref_database p = ref_database r
          \<and> key p = Some (ref_segments r ! (length (ref_segments r) - 2))))
   \<and> (length (ref_segments r) \<le> 1 \<longrightarrow> parent r = None)
   \<and> parent (ref db path) = parent (database_ref db path)"
  using key_butlast [of r] by (auto simp: parent_def ref_def)

text \<open>
  The tests of \<^verbatim>\<open>parent.e2e.js\<close>: \<^verbatim>\<open>'/foo/bar/baz'\<close> has a parent with key \<^verbatim>\<open>'bar'\<close>,
  \<^verbatim>\<open>'/foo'\<close> and the reference without a path have none, in both APIs.
\<close>

theorem reference_parent_key_witness:
  "2 \<le> length (ref_segments (ref (0::nat) (Some ''/foo/bar/baz'')))
   \<and> map_option key (parent (ref (0::nat) (Some ''/foo/bar/baz''))) = Some (Some ''bar'')
   \<and> map_option key (parent (database_ref (0::nat) (Some ''/foo/bar/baz''))) = Some (Some ''bar'')
   \<and> length (ref_segments (ref (0::nat) (Some ''/foo''))) \<le> 1
   \<and> parent (ref (0::nat) (Some ''/foo'')) = None
   \<and> parent (database_ref (0::nat) (Some ''/foo'')) = None
   \<and> parent (ref (0::nat) None) = None
   \<and> parent (database_ref (0::nat) None) = None"
  using reference_parent_key [of "ref (0::nat) (Some ''/foo/bar/baz'')" 0 "Some ''/foo/bar/baz''"]
    reference_parent_key [of "ref (0::nat) (Some ''/foo'')" 0 "Some ''/foo''"]
    reference_parent_key [of "ref (0::nat) None" 0 None]
  by (simp add: ref_def database_ref_def path_segments_def parent_def key_def)

end
